theory Spec2Isabelle
  imports Main
begin

section \<open>The dashboard grid component\<close>

text \<open>
  Source: \<^verbatim>\<open>wren-ui/src/components/pages/home/dashboardGrid/index.tsx\<close>.
  A React function component without props. Its body reads one \<^verbatim>\<open>useMemo\<close> cell,
  writes two lines to the console, maps the memoised array to keyed children and returns
  one element tree. The hook cell and the console are the only state the body touches, so
  the component is a function from that state to the returned tree and the new state.
\<close>

subsection \<open>Elements\<close>

text \<open>The object literal \<^verbatim>\<open>{ x, y, w, h }\<close> passed as \<^verbatim>\<open>data-grid\<close>.\<close>

record layout =
  grid_x :: int
  grid_y :: int
  grid_w :: int
  grid_h :: int

text \<open>The values that occur as JSX attributes in the file.\<close>

datatype attr_value =
    PStr string
  | PNum int
  | PNums "int list"
  | PLayout layout

text \<open>
  A JSX expression: an element with its tag, its \<^verbatim>\<open>key\<close> (React keeps the key apart
  from the other attributes), its attributes in source order and its children; or a text
  child.
\<close>

datatype element =
    Element (tag: string) (key: "string option") (props: "(string \<times> attr_value) list")
      (children: "element list")
  | Text string

text \<open>One entry of the array built inside \<^verbatim>\<open>useMemo\<close>.\<close>

record descriptor =
  item_id :: string
  item_layout :: layout
  item_render :: element

subsection \<open>Hook cell and console\<close>

datatype log_entry =
    LogLayouts "descriptor list"
  | LogGrids "element list"

record render_state =
  memo :: "descriptor list option"
  console :: "log_entry list"

text \<open>
  \<^verbatim>\<open>useMemo(factory, [])\<close>: the dependency array is empty, so the factory runs when the
  cell is still empty and the stored value is handed back on every later render.
\<close>

definition useMemo :: "(unit \<Rightarrow> 'a) \<Rightarrow> 'a option \<Rightarrow> 'a \<times> 'a option" where
  "useMemo factory cell =
     (case cell of
        None \<Rightarrow> (let v = factory () in (v, Some v))
      | Some v \<Rightarrow> (v, Some v))"

subsection \<open>The component body\<close>

text \<open>Lines 29 to 42: the arrow function given to \<^verbatim>\<open>useMemo\<close>.\<close>

definition gridLayouts_factory :: "unit \<Rightarrow> descriptor list" where
  "gridLayouts_factory u =
     [ \<lparr> item_id = ''a'',
         item_layout = \<lparr> grid_x = 0, grid_y = 0, grid_w = 6, grid_h = 6 \<rparr>,
         item_render = Element ''div'' None [(''className'', PStr ''adm-pin-item'')] [Text ''a''] \<rparr>,
       \<lparr> item_id = ''b'',
         item_layout = \<lparr> grid_x = 6, grid_y = 0, grid_w = 6, grid_h = 6 \<rparr>,
         item_render = Element ''div'' None [(''className'', PStr ''adm-pin-item'')] [Text ''b''] \<rparr> ]"

text \<open>Lines 46 to 52: the callback of \<^verbatim>\<open>gridLayouts.map\<close>.\<close>

definition grid_cell :: "descriptor \<Rightarrow> element" where
  "grid_cell item =
     Element ''div'' (Some (item_id item)) [(''data-grid'', PLayout (item_layout item))]
       [item_render item]"

text \<open>The value bound to \<^verbatim>\<open>gridLayouts\<close> in a render that starts in state \<open>s\<close>.\<close>

definition gridLayouts :: "render_state \<Rightarrow> descriptor list" where
  "gridLayouts s = fst (useMemo gridLayouts_factory (memo s))"

text \<open>The value bound to \<^verbatim>\<open>grids\<close> in that render.\<close>

definition grids :: "render_state \<Rightarrow> element list" where
  "grids s = map grid_cell (gridLayouts s)"

text \<open>Lines 56 to 68: the returned tree.\<close>

definition dashboard_tree :: "element list \<Rightarrow> element" where
  "dashboard_tree gs =
     Element ''StyledDashboardGrid'' None [(''className'', PStr ''mt-12'')]
       [ Element ''GridLayout'' None
           [ (''className'', PStr ''layout''),
             (''cols'', PNum 12),
             (''margin'', PNums [16, 16]),
             (''rowHeight'', PNum 30),
             (''width'', PNum 768) ]
           gs ]"

text \<open>
  The whole body, statement by statement: the hook, the first \<^verbatim>\<open>console.log\<close>, the
  map, the second \<^verbatim>\<open>console.log\<close>, the return.
\<close>

definition DashboardGrid :: "render_state \<Rightarrow> element \<times> render_state" where
  "DashboardGrid s =
     (let (gl, cell) = useMemo gridLayouts_factory (memo s);
          s1 = s\<lparr> memo := cell \<rparr>;
          s2 = s1\<lparr> console := console s1 @ [LogLayouts gl] \<rparr>;
          gs = map grid_cell gl;
          s3 = s2\<lparr> console := console s2 @ [LogGrids gs] \<rparr>
      in (dashboard_tree gs, s3))"

text \<open>The state at mount, and the state before the render number \<open>n\<close> (counted from 0).\<close>

definition mount :: render_state where
  "mount = \<lparr> memo = None, console = [] \<rparr>"

fun rendered :: "nat \<Rightarrow> render_state" where
  "rendered 0 = mount"
| "rendered (Suc n) = snd (DashboardGrid (rendered n))"

subsection \<open>Reading a tree\<close>

text \<open>The attribute of an element, \<open>None\<close> for a text child or a missing attribute.\<close>

fun attr :: "string \<Rightarrow> element \<Rightarrow> attr_value option" where
  "attr k (Element t ky ps cs) = map_of ps k"
| "attr k (Text s) = None"

fun child_elements :: "element \<Rightarrow> element list" where
  "child_elements (Element t ky ps cs) = cs"
| "child_elements (Text s) = []"

fun key_of :: "element \<Rightarrow> string option" where
  "key_of (Element t ky ps cs) = ky"
| "key_of (Text s) = None"


text \<open>The column span of a layout: the half-open range from \<open>x\<close> to \<open>x + w\<close>.\<close>

definition columns :: "layout \<Rightarrow> int set" where
  "columns l = {grid_x l ..< grid_x l + grid_w l}"

text \<open>The \<^verbatim>\<open>cols\<close> attribute of the \<^verbatim>\<open>GridLayout\<close> element inside a returned tree.\<close>

definition grid_cols :: "element \<Rightarrow> int option" where
  "grid_cols tree =
     (case child_elements tree of
        [g] \<Rightarrow> (case attr ''cols'' g of Some (PNum c) \<Rightarrow> Some c | _ \<Rightarrow> None)
      | _ \<Rightarrow> None)"

text \<open>
  The layouts that reach the grid: the \<^verbatim>\<open>data-grid\<close> attribute of each child of the
  \<^verbatim>\<open>GridLayout\<close> element inside a returned tree.
\<close>

definition cell_layouts :: "element \<Rightarrow> layout list" where
  "cell_layouts tree =
     concat (map (\<lambda>g. concat (map (\<lambda>c. case attr ''data-grid'' c of
                                            Some (PLayout l) \<Rightarrow> [l] | _ \<Rightarrow> [])
                                    (child_elements g)))
                 (child_elements tree))"

section \<open>The component body on run-time values\<close>

text \<open>
  The types of the source are erased before it runs. At run time the body works on
  JavaScript values, and two of its steps can raise a \<^verbatim>\<open>TypeError\<close>: the method call
  \<^verbatim>\<open>gridLayouts.map(...)\<close>, when the receiver is no array, and the property reads
  \<^verbatim>\<open>item.id\<close>, \<^verbatim>\<open>item.layout\<close>, \<^verbatim>\<open>item.render\<close>, when the item is
  \<^verbatim>\<open>undefined\<close>. This section writes the body once more on such values, with each
  of these failures as a result of its own.
\<close>

subsection \<open>Values and errors\<close>

text \<open>
  The values the body can meet. An element made by JSX carries its type, its key as it was
  given, its attributes and its children.
\<close>

datatype js_value =
    JUndefined
  | JNum int
  | JStr string
  | JArr "js_value list"
  | JObj "(string \<times> js_value) list"
  | JElem string js_value "(string \<times> js_value) list" "js_value list"

datatype js_error =
    CannotReadProperty string
  | NotAFunction string

text \<open>
  The property read \<^verbatim>\<open>v.k\<close> for the three names the body reads: it throws on
  \<^verbatim>\<open>undefined\<close>, gives the stored value on an object that has the property, and
  \<^verbatim>\<open>undefined\<close> on every other value.
\<close>

fun js_get :: "string \<Rightarrow> js_value \<Rightarrow> js_error + js_value" where
  "js_get k JUndefined = Inl (CannotReadProperty k)"
| "js_get k (JObj kvs) = Inr (case map_of kvs k of Some v \<Rightarrow> v | None \<Rightarrow> JUndefined)"
| "js_get k v = Inr JUndefined"

text \<open>The callback runs on the items from left to right and the first throw ends the call.\<close>

fun map_all :: "('a \<Rightarrow> js_error + 'b) \<Rightarrow> 'a list \<Rightarrow> js_error + 'b list" where
  "map_all f [] = Inr []"
| "map_all f (x # xs) =
     (case f x of
        Inl e \<Rightarrow> Inl e
      | Inr y \<Rightarrow> (case map_all f xs of Inl e \<Rightarrow> Inl e | Inr ys \<Rightarrow> Inr (y # ys)))"

text \<open>
  The method call \<^verbatim>\<open>v.map(f)\<close>: on an array it maps, on \<^verbatim>\<open>undefined\<close> the read of
  \<^verbatim>\<open>map\<close> throws, and on any other value \<^verbatim>\<open>v.map\<close> is nothing that can be called.
\<close>

fun js_map :: "(js_value \<Rightarrow> js_error + js_value) \<Rightarrow> js_value \<Rightarrow> js_error + js_value" where
  "js_map f (JArr xs) = (case map_all f xs of Inl e \<Rightarrow> Inl e | Inr ys \<Rightarrow> Inr (JArr ys))"
| "js_map f JUndefined = Inl (CannotReadProperty ''map'')"
| "js_map f v = Inl (NotAFunction ''map'')"

text \<open>An array given as a child stands for its items; any other value is one child.\<close>

fun js_children :: "js_value \<Rightarrow> js_value list" where
  "js_children (JArr xs) = xs"
| "js_children v = [v]"

subsection \<open>The body\<close>

record js_state =
  js_memo :: "js_value option"
  js_console :: "js_value list"

text \<open>Lines 29 to 42.\<close>

definition gridLayouts_factory_js :: "unit \<Rightarrow> js_value" where
  "gridLayouts_factory_js u =
     JArr
       [ JObj [ (''id'', JStr ''a''),
                (''layout'', JObj [(''x'', JNum 0), (''y'', JNum 0), (''w'', JNum 6), (''h'', JNum 6)]),
                (''render'', JElem ''div'' JUndefined [(''className'', JStr ''adm-pin-item'')]
                               [JStr ''a'']) ],
         JObj [ (''id'', JStr ''b''),
                (''layout'', JObj [(''x'', JNum 6), (''y'', JNum 0), (''w'', JNum 6), (''h'', JNum 6)]),
                (''render'', JElem ''div'' JUndefined [(''className'', JStr ''adm-pin-item'')]
                               [JStr ''b'']) ] ]"

text \<open>Lines 46 to 52: the three reads in the order of the JSX, then the element.\<close>

definition grid_cell_js :: "js_value \<Rightarrow> js_error + js_value" where
  "grid_cell_js item =
     (case js_get ''id'' item of
        Inl e \<Rightarrow> Inl e
      | Inr k \<Rightarrow>
          (case js_get ''layout'' item of
             Inl e \<Rightarrow> Inl e
           | Inr l \<Rightarrow>
               (case js_get ''render'' item of
                  Inl e \<Rightarrow> Inl e
                | Inr r \<Rightarrow> Inr (JElem ''div'' k [(''data-grid'', l)] (js_children r)))))"

text \<open>Lines 56 to 68.\<close>

definition dashboard_tree_js :: "js_value \<Rightarrow> js_value" where
  "dashboard_tree_js gs =
     JElem ''StyledDashboardGrid'' JUndefined [(''className'', JStr ''mt-12'')]
       [ JElem ''GridLayout'' JUndefined
           [ (''className'', JStr ''layout''),
             (''cols'', JNum 12),
             (''margin'', JArr [JNum 16, JNum 16]),
             (''rowHeight'', JNum 30),
             (''width'', JNum 768) ]
           (js_children gs) ]"

text \<open>
  The body: the hook, the first \<^verbatim>\<open>console.log\<close>, the map, which may throw, the
  second \<^verbatim>\<open>console.log\<close>, the return. The body itself has no branch: the two cases
  below are the outcome of the map.
\<close>

definition DashboardGrid_js :: "js_state \<Rightarrow> js_error + js_value \<times> js_state" where
  "DashboardGrid_js s =
     (let (gl, cell) = useMemo gridLayouts_factory_js (js_memo s);
          s1 = s\<lparr> js_memo := cell \<rparr>;
          s2 = s1\<lparr> js_console := js_console s1 @ [gl] \<rparr>
      in case js_map grid_cell_js gl of
           Inl e \<Rightarrow> Inl e
         | Inr gs \<Rightarrow>
             (let s3 = s2\<lparr> js_console := js_console s2 @ [gs] \<rparr>
              in Inr (dashboard_tree_js gs, s3)))"



subsection \<open>Typed values as run-time values\<close>







section \<open>The configuration fixture and the deployment manifest\<close>

subsection \<open>YAML values\<close>

text \<open>
  Both files are YAML. A value is a scalar (null, string, integer, boolean), a sequence,
  or a mapping whose entries keep the order of the file.
\<close>

datatype yaml =
    YNull
  | YStr string
  | YInt int
  | YBool bool
  | YSeq "yaml list"
  | YMap "(string \<times> yaml) list"

text \<open>The value under a key of a mapping; \<open>None\<close> when the key is absent or the value is no mapping.\<close>

fun field :: "string \<Rightarrow> yaml \<Rightarrow> yaml option" where
  "field k (YMap kvs) = map_of kvs k"
| "field k y = None"

fun keys :: "yaml \<Rightarrow> string list" where
  "keys (YMap kvs) = map fst kvs"
| "keys y = []"

fun entries :: "yaml \<Rightarrow> (string \<times> yaml) list" where
  "entries (YMap kvs) = kvs"
| "entries y = []"

fun items :: "yaml \<Rightarrow> yaml list" where
  "items (YSeq ys) = ys"
| "items y = []"

text \<open>The items of the sequence under a key, empty when there is none.\<close>

definition items_at :: "string \<Rightarrow> yaml \<Rightarrow> yaml list" where
  "items_at k y = (case field k y of Some v \<Rightarrow> items v | None \<Rightarrow> [])"

fun str_of :: "yaml \<Rightarrow> string option" where
  "str_of (YStr s) = Some s"
| "str_of y = None"

text \<open>The string under a key, as a list with zero or one element.\<close>

definition strs_at :: "string \<Rightarrow> yaml \<Rightarrow> string list" where
  "strs_at k y = (case field k y of Some (YStr s) \<Rightarrow> [s] | _ \<Rightarrow> [])"

text \<open>The values under a key over a list of mappings, skipping those without the key.\<close>

definition field_values :: "string \<Rightarrow> yaml list \<Rightarrow> yaml list" where
  "field_values k ys = concat (map (\<lambda>y. case field k y of Some v \<Rightarrow> [v] | None \<Rightarrow> []) ys)"

subsection \<open>The fixture\<close>

text \<open>
  Source: \<^verbatim>\<open>wren-ai-service/tests/data/config.test.yaml\<close>, a stream of documents
  separated by \<^verbatim>\<open>---\<close>.
\<close>

definition llm_doc :: yaml where
  "llm_doc = YMap
     [ (''type'', YStr ''llm''),
       (''provider'', YStr ''openai_llm''),
       (''models'', YSeq
          [ YMap
              [ (''model'', YStr ''gpt-4o-mini''),
                (''kwargs'', YMap
                   [ (''temperature'', YInt 0),
                     (''n'', YInt 1),
                     (''max_tokens'', YInt 4096),
                     (''response_format'', YMap [(''type'', YStr ''json_object'')]) ]) ] ]),
       (''api_base'', YStr ''https://api.openai.com/v1'') ]"

definition embedder_doc :: yaml where
  "embedder_doc = YMap
     [ (''type'', YStr ''embedder''),
       (''provider'', YStr ''openai_embedder''),
       (''models'', YSeq
          [ YMap
              [ (''model'', YStr ''text-embedding-3-large''),
                (''dimension'', YInt 3072) ] ]),
       (''api_base'', YStr ''https://api.openai.com/v1''),
       (''timeout'', YInt 120) ]"

definition engine_doc :: yaml where
  "engine_doc = YMap
     [ (''type'', YStr ''engine''),
       (''provider'', YStr ''wren_ui''),
       (''endpoint'', YStr ''http://localhost:3000'') ]"

definition document_store_doc :: yaml where
  "document_store_doc = YMap
     [ (''type'', YStr ''document_store''),
       (''provider'', YStr ''qdrant''),
       (''location'', YStr ''http://localhost:6333''),
       (''embedding_model_dim'', YInt 3072),
       (''timeout'', YInt 120) ]"

definition pipeline_doc :: yaml where
  "pipeline_doc = YMap
     [ (''type'', YStr ''pipeline''),
       (''pipes'', YSeq
          [ YMap [ (''name'', YStr ''indexing''),
                   (''embedder'', YStr ''openai_embedder.text-embedding-3-large''),
                   (''document_store'', YStr ''qdrant'') ],
            YMap [ (''name'', YStr ''retrieval''),
                   (''llm'', YStr ''openai_llm.gpt-4o-mini''),
                   (''embedder'', YStr ''openai_embedder.text-embedding-3-large''),
                   (''document_store'', YStr ''qdrant'') ],
            YMap [ (''name'', YStr ''historical_question_retrieval''),
                   (''embedder'', YStr ''openai_embedder.text-embedding-3-large''),
                   (''document_store'', YStr ''qdrant'') ],
            YMap [ (''name'', YStr ''sql_generation''),
                   (''llm'', YStr ''openai_llm.gpt-4o-mini''),
                   (''engine'', YStr ''wren_ui'') ],
            YMap [ (''name'', YStr ''sql_correction''),
                   (''llm'', YStr ''openai_llm.gpt-4o-mini''),
                   (''engine'', YStr ''wren_ui'') ],
            YMap [ (''name'', YStr ''followup_sql_generation''),
                   (''llm'', YStr ''openai_llm.gpt-4o-mini''),
                   (''engine'', YStr ''wren_ui'') ],
            YMap [ (''name'', YStr ''sql_answer''),
                   (''llm'', YStr ''openai_llm.gpt-4o-mini''),
                   (''engine'', YStr ''wren_ui'') ],
            YMap [ (''name'', YStr ''sql_explanation''),
                   (''llm'', YStr ''openai_llm.gpt-4o-mini'') ],
            YMap [ (''name'', YStr ''sql_regeneration''),
                   (''llm'', YStr ''openai_llm.gpt-4o-mini''),
                   (''engine'', YStr ''wren_ui'') ],
            YMap [ (''name'', YStr ''semantics_description''),
                   (''llm'', YStr ''openai_llm.gpt-4o-mini'') ],
            YMap [ (''name'', YStr ''relationship_recommendation''),
                   (''llm'', YStr ''openai_llm.gpt-4o-mini''),
                   (''engine'', YStr ''wren_ui'') ],
            YMap [ (''name'', YStr ''user_guide_assistance''),
                   (''llm'', YStr ''openai_llm.gpt-4o-mini'') ],
            YMap [ (''name'', YStr ''data_assistance''),
                   (''llm'', YStr ''openai_llm.gpt-4o-mini'') ] ]) ]"

definition settings_doc :: yaml where
  "settings_doc = YMap
     [ (''settings'', YMap
          [ (''host'', YStr ''127.0.0.1''),
            (''port'', YInt 5556),
            (''column_indexing_batch_size'', YInt 50),
            (''doc_endpoint'', YStr ''https://docs.getwren.ai''),
            (''is_oss'', YBool True),
            (''table_retrieval_size'', YInt 10),
            (''table_column_retrieval_size'', YInt 1000),
            (''query_cache_maxsize'', YInt 1000),
            (''query_cache_ttl'', YInt 3600),
            (''langfuse_host'', YStr ''https://cloud.langfuse.com''),
            (''langfuse_enable'', YBool False),
            (''logging_level'', YStr ''INFO''),
            (''development'', YBool False) ]) ]"

definition config_test_yaml :: "yaml list" where
  "config_test_yaml =
     [llm_doc, embedder_doc, engine_doc, document_store_doc, pipeline_doc, settings_doc]"

subsection \<open>Reading the fixture\<close>

text \<open>The documents whose \<^verbatim>\<open>type\<close> field is the given kind.\<close>

definition sections_of :: "string \<Rightarrow> yaml list \<Rightarrow> yaml list" where
  "sections_of kind docs = filter (\<lambda>d. field ''type'' d = Some (YStr kind)) docs"

text \<open>
  The kind of a document: its \<^verbatim>\<open>type\<close> field when it has one, and
  \<^verbatim>\<open>settings\<close> for a document that has a \<^verbatim>\<open>settings\<close> key instead.
\<close>

definition section_kind :: "yaml \<Rightarrow> string option" where
  "section_kind d =
     (case field ''type'' d of
        Some (YStr t) \<Rightarrow> Some t
      | _ \<Rightarrow> (if ''settings'' \<in> set (keys d) then Some ''settings'' else None))"

text \<open>
  The names under which a model section can be referred to: \<^verbatim>\<open>provider.model\<close> for
  each entry of its \<^verbatim>\<open>models\<close>.
\<close>

definition model_ids :: "yaml \<Rightarrow> string list" where
  "model_ids d =
     concat (map (\<lambda>p. concat (map (\<lambda>m. map (\<lambda>n. p @ ''.'' @ n) (strs_at ''model'' m))
                                  (items_at ''models'' d)))
                 (strs_at ''provider'' d))"

definition declared_models :: "string \<Rightarrow> yaml list \<Rightarrow> string list" where
  "declared_models kind docs = concat (map model_ids (sections_of kind docs))"

definition declared_providers :: "string \<Rightarrow> yaml list \<Rightarrow> string list" where
  "declared_providers kind docs = concat (map (strs_at ''provider'') (sections_of kind docs))"

definition pipes :: "yaml list \<Rightarrow> yaml list" where
  "pipes docs = concat (map (items_at ''pipes'') (sections_of ''pipeline'' docs))"

text \<open>The values of one field over all pipes that have it, in file order.\<close>

definition pipe_refs :: "string \<Rightarrow> yaml list \<Rightarrow> yaml list" where
  "pipe_refs k docs = field_values k (pipes docs)"

text \<open>The values of one field over the \<^verbatim>\<open>models\<close> entries of the sections of a kind.\<close>

definition model_fields :: "string \<Rightarrow> string \<Rightarrow> yaml list \<Rightarrow> yaml list" where
  "model_fields kind k docs =
     field_values k (concat (map (items_at ''models'') (sections_of kind docs)))"

subsection \<open>The manifest\<close>

text \<open>
  Source: the Docker Compose file (\<^verbatim>\<open>src/unnamed/part_000\<close>). The block after line 81
  is a comment and declares nothing.
\<close>

definition bootstrap_service :: yaml where
  "bootstrap_service = YMap
     [ (''image'', YStr ''ghcr.io/canner/wren-bootstrap:${WREN_BOOTSTRAP_VERSION}''),
       (''pull_policy'', YStr ''always''),
       (''platform'', YStr ''${PLATFORM}''),
       (''environment'', YMap [(''DATA_PATH'', YStr ''/app/data'')]),
       (''volumes'', YSeq [YStr ''data:/app/data'']),
       (''command'', YStr ''/bin/sh /app/init.sh'') ]"

definition wren_engine_service :: yaml where
  "wren_engine_service = YMap
     [ (''image'', YStr ''ghcr.io/canner/wren-engine:${WREN_ENGINE_VERSION}''),
       (''pull_policy'', YStr ''always''),
       (''platform'', YStr ''${PLATFORM}''),
       (''expose'', YSeq [YStr ''${WREN_ENGINE_SQL_PORT}'']),
       (''ports'', YSeq [YStr ''${WREN_ENGINE_PORT}:${WREN_ENGINE_PORT}'']),
       (''volumes'', YSeq [YStr ''data:/usr/src/app/etc'']),
       (''networks'', YSeq [YStr ''wren'']),
       (''depends_on'', YSeq [YStr ''bootstrap'']) ]"

definition wren_ai_service :: yaml where
  "wren_ai_service = YMap
     [ (''image'', YStr ''ghcr.io/canner/wren-ai-service:${WREN_AI_SERVICE_VERSION}''),
       (''pull_policy'', YStr ''always''),
       (''platform'', YStr ''${PLATFORM}''),
       (''ports'', YSeq [YStr ''${AI_SERVICE_FORWARD_PORT}:${WREN_AI_SERVICE_PORT}'']),
       (''environment'', YMap
          [ (''WREN_UI_ENDPOINT'', YStr ''http://host.docker.internal:${WREN_UI_PORT}''),
            (''PYTHONUNBUFFERED'', YInt 1),
            (''CONFIG_PATH'', YStr ''/app/config.yaml'') ]),
       (''env_file'', YSeq [YStr ''${PROJECT_DIR}/.env'']),
       (''volumes'', YSeq
          [ YStr ''${PROJECT_DIR}/config.yaml:/app/config.yaml:ro'',
            YStr ''${PROJECT_DIR}/data:/app/data:ro'' ]),
       (''networks'', YSeq [YStr ''wren'']),
       (''depends_on'', YSeq [YStr ''qdrant'']) ]"

definition ibis_server_service :: yaml where
  "ibis_server_service = YMap
     [ (''image'', YStr ''ghcr.io/canner/wren-engine-ibis:${IBIS_SERVER_VERSION}''),
       (''pull_policy'', YStr ''always''),
       (''platform'', YStr ''${PLATFORM}''),
       (''expose'', YSeq [YInt 8000]),
       (''ports'', YSeq [YStr ''${IBIS_SERVER_PORT}:8000'']),
       (''environment'', YMap
          [ (''WREN_ENGINE_ENDPOINT'', YStr ''http://wren-engine:${WREN_ENGINE_PORT}''),
            (''LOG_LEVEL'', YStr ''DEBUG'') ]),
       (''networks'', YSeq [YStr ''wren'']) ]"

definition qdrant_service :: yaml where
  "qdrant_service = YMap
     [ (''image'', YStr ''qdrant/qdrant:v1.11.0''),
       (''pull_policy'', YStr ''always''),
       (''ports'', YSeq [YStr ''6333:6333'', YStr ''6334:6334'']),
       (''networks'', YSeq [YStr ''wren'']) ]"

definition docker_compose_yaml :: yaml where
  "docker_compose_yaml = YMap
     [ (''version'', YStr ''3''),
       (''volumes'', YMap [(''data'', YNull)]),
       (''networks'', YMap [(''wren'', YMap [(''driver'', YStr ''bridge'')])]),
       (''services'', YMap
          [ (''bootstrap'', bootstrap_service),
            (''wren-engine'', wren_engine_service),
            (''wren-ai-service'', wren_ai_service),
            (''ibis-server'', ibis_server_service),
            (''qdrant'', qdrant_service) ]) ]"

definition services :: "yaml \<Rightarrow> (string \<times> yaml) list" where
  "services c = (case field ''services'' c of Some v \<Rightarrow> entries v | None \<Rightarrow> [])"

definition has_field :: "string \<Rightarrow> yaml \<Rightarrow> bool" where
  "has_field k y = (field k y \<noteq> None)"

section \<open>What one file names and what another declares\<close>

text \<open>
  The things a deployment binds: a service by its name, an endpoint by its URL, a port by
  its number, a file by its path.
\<close>

datatype resource =
    Service string
  | Endpoint string
  | Port nat
  | File string

subsection \<open>Text of scalars\<close>

text \<open>The pieces of a string between occurrences of a separator, empty pieces included.\<close>

fun split_on :: "char \<Rightarrow> string \<Rightarrow> string list" where
  "split_on c [] = [[]]"
| "split_on c (x # xs) =
     (if x = c then [] # split_on c xs
      else (case split_on c xs of [] \<Rightarrow> [[x]] | w # ws \<Rightarrow> (x # w) # ws))"

text \<open>The non-empty pieces between colons and slashes: scheme, host, port, path segments.\<close>

definition tokens :: "string \<Rightarrow> string list" where
  "tokens s =
     filter (\<lambda>t. t \<noteq> []) (concat (map (split_on CHR ''/'') (split_on CHR '':'' s)))"

definition digit :: "char \<Rightarrow> nat option" where
  "digit c = (let n = (of_char c :: nat) in if 48 \<le> n \<and> n \<le> 57 then Some (n - 48) else None)"

fun parse_digits :: "nat \<Rightarrow> string \<Rightarrow> nat option" where
  "parse_digits a [] = Some a"
| "parse_digits a (c # cs) =
     (case digit c of None \<Rightarrow> None | Some d \<Rightarrow> parse_digits (10 * a + d) cs)"

text \<open>A non-empty string of decimal digits read as a number.\<close>

definition parse_nat :: "string \<Rightarrow> nat option" where
  "parse_nat s = (if s = [] then None else parse_digits 0 s)"

definition numbers_in :: "string list \<Rightarrow> nat list" where
  "numbers_in ts = concat (map (\<lambda>t. case parse_nat t of Some n \<Rightarrow> [n] | None \<Rightarrow> []) ts)"

definition is_url :: "string \<Rightarrow> bool" where
  "is_url s = (take 7 s = ''http://'' \<or> take 8 s = ''https://'')"

subsection \<open>Scalars of a file\<close>

fun leaves :: "yaml \<Rightarrow> yaml list" where
  "leaves (YSeq ys) = concat (map leaves ys)"
| "leaves (YMap kvs) = concat (map (\<lambda>kv. leaves (snd kv)) kvs)"
| "leaves y = [y]"

fun attr_scalars :: "attr_value \<Rightarrow> yaml list" where
  "attr_scalars (PStr s) = [YStr s]"
| "attr_scalars (PNum n) = [YInt n]"
| "attr_scalars (PNums ns) = map YInt ns"
| "attr_scalars (PLayout l) = [YInt (grid_x l), YInt (grid_y l), YInt (grid_w l), YInt (grid_h l)]"

text \<open>The literals of a tree: keys, attribute values and text children.\<close>

fun element_scalars :: "element \<Rightarrow> yaml list" where
  "element_scalars (Text s) = [YStr s]"
| "element_scalars (Element t ky ps cs) =
     (case ky of None \<Rightarrow> [] | Some k \<Rightarrow> [YStr k])
     @ concat (map (\<lambda>p. attr_scalars (snd p)) ps)
     @ concat (map element_scalars cs)"

text \<open>
  Every way a scalar can name a resource: a string names the endpoint and the file it
  spells, the services its tokens spell and the ports its numeric tokens spell; a
  non-negative integer names the port of that number.
\<close>

fun scalar_mentions :: "yaml \<Rightarrow> resource list" where
  "scalar_mentions (YStr s) =
     [Endpoint s, File s] @ map Service (tokens s) @ map Port (numbers_in (tokens s))"
| "scalar_mentions (YInt n) = (if 0 \<le> n then [Port (nat n)] else [])"
| "scalar_mentions y = []"

subsection \<open>Declarations\<close>

text \<open>The port numbers written in one entry of \<^verbatim>\<open>ports\<close> or \<^verbatim>\<open>expose\<close>.\<close>

fun port_numbers :: "yaml \<Rightarrow> nat list" where
  "port_numbers (YInt n) = (if 0 \<le> n then [nat n] else [])"
| "port_numbers (YStr s) = numbers_in (split_on CHR '':'' s)"
| "port_numbers y = []"

text \<open>The host path and the container path of one entry of \<^verbatim>\<open>volumes\<close>.\<close>

fun volume_paths :: "yaml \<Rightarrow> string list" where
  "volume_paths (YStr s) = take 2 (split_on CHR '':'' s)"
| "volume_paths y = []"

definition url_strings :: "yaml \<Rightarrow> string list" where
  "url_strings y = concat (map (\<lambda>v. case v of YStr s \<Rightarrow> (if is_url s then [s] else []) | _ \<Rightarrow> []) (leaves y))"

text \<open>
  What one service of the manifest declares: the ports it publishes or exposes, the files
  it mounts or reads its environment from, the endpoints it sets in its environment.
\<close>

definition service_declares :: "yaml \<Rightarrow> resource list" where
  "service_declares s =
     map Port (concat (map port_numbers (items_at ''ports'' s @ items_at ''expose'' s)))
     @ map File (concat (map volume_paths (items_at ''volumes'' s)))
     @ map File (concat (map (\<lambda>v. case v of YStr f \<Rightarrow> [f] | _ \<Rightarrow> []) (items_at ''env_file'' s)))
     @ map Endpoint (case field ''environment'' s of Some e \<Rightarrow> url_strings e | None \<Rightarrow> [])"

definition manifest_declares :: "yaml \<Rightarrow> resource list" where
  "manifest_declares c =
     map (\<lambda>kv. Service (fst kv)) (services c)
     @ concat (map (\<lambda>kv. service_declares (snd kv)) (services c))"

text \<open>
  What one document of the fixture declares: its provider by name, the URLs it gives with
  the ports they carry, and the port of the \<^verbatim>\<open>settings\<close> block.
\<close>

definition document_declares :: "yaml \<Rightarrow> resource list" where
  "document_declares d =
     map Service (strs_at ''provider'' d)
     @ map Endpoint (url_strings d)
     @ map Port (numbers_in (concat (map tokens (url_strings d))))
     @ (case field ''settings'' d of
          Some st \<Rightarrow> (case field ''port'' st of Some p \<Rightarrow> map Port (port_numbers p) | None \<Rightarrow> [])
        | None \<Rightarrow> [])"

subsection \<open>The three files\<close>

datatype artifact =
    Fixture "yaml list"
  | Component element
  | Manifest yaml

fun scalars :: "artifact \<Rightarrow> yaml list" where
  "scalars (Fixture docs) = concat (map leaves docs)"
| "scalars (Component e) = element_scalars e"
| "scalars (Manifest c) = leaves c"

definition mentions :: "artifact \<Rightarrow> resource list" where
  "mentions a = concat (map scalar_mentions (scalars a))"

text \<open>The component declares no service, endpoint, port or file.\<close>

fun declares :: "artifact \<Rightarrow> resource list" where
  "declares (Fixture docs) = concat (map document_declares docs)"
| "declares (Component e) = []"
| "declares (Manifest c) = manifest_declares c"

text \<open>The resources that \<open>a\<close> names and \<open>b\<close> declares, each once, in the order \<open>a\<close> names them.\<close>

definition shared :: "artifact \<Rightarrow> artifact \<Rightarrow> resource list" where
  "shared a b = remdups (filter (\<lambda>r. r \<in> set (declares b)) (mentions a))"

definition independent :: "artifact \<Rightarrow> artifact \<Rightarrow> bool" where
  "independent a b = (shared a b = [] \<and> shared b a = [])"

definition the_fixture :: artifact where
  "the_fixture = Fixture config_test_yaml"

definition the_component :: artifact where
  "the_component = Component (fst (DashboardGrid mount))"

definition the_manifest :: artifact where
  "the_manifest = Manifest docker_compose_yaml"

section \<open>Properties of the component\<close>

subsection \<open>What a render computes\<close>

lemma gridLayouts_rendered:
  "gridLayouts (rendered n) = gridLayouts_factory ()"
proof (induction n)
  case 0
  show ?case by (simp add: gridLayouts_def useMemo_def mount_def Let_def)
next
  case (Suc n)
  have "memo (rendered (Suc n)) = Some (gridLayouts (rendered n))"
    by (simp add: DashboardGrid_def gridLayouts_def useMemo_def Let_def split: option.splits)
  then show ?case
    using Suc by (simp add: gridLayouts_def useMemo_def)
qed

lemma DashboardGrid_tree: "fst (DashboardGrid s) = dashboard_tree (grids s)"
  by (simp add: DashboardGrid_def grids_def gridLayouts_def Let_def split: prod.splits)

lemma DashboardGrid_memo: "memo (snd (DashboardGrid s)) = Some (gridLayouts s)"
  by (simp add: DashboardGrid_def gridLayouts_def useMemo_def Let_def split: option.splits)

lemma grids_rendered:
  "grids (rendered n) =
     [ Element ''div'' (Some ''a'')
         [(''data-grid'', PLayout \<lparr> grid_x = 0, grid_y = 0, grid_w = 6, grid_h = 6 \<rparr>)]
         [Element ''div'' None [(''className'', PStr ''adm-pin-item'')] [Text ''a'']],
       Element ''div'' (Some ''b'')
         [(''data-grid'', PLayout \<lparr> grid_x = 6, grid_y = 0, grid_w = 6, grid_h = 6 \<rparr>)]
         [Element ''div'' None [(''className'', PStr ''adm-pin-item'')] [Text ''b'']] ]"
  by (simp add: grids_def gridLayouts_rendered gridLayouts_factory_def grid_cell_def)

subsection \<open>The map over the descriptors\<close>

text \<open>
  C1. In every render, whatever the hook cell holds, \<^verbatim>\<open>grids\<close> has one child per
  descriptor of \<^verbatim>\<open>gridLayouts\<close>, in the same order: the list of keys is the list of
  ids, the list of \<^verbatim>\<open>data-grid\<close> attributes is the list of layout records, and the
  content of each child is the single render element of its descriptor.
\<close>

theorem grids_map_gridLayouts:
  "length (grids s) = length (gridLayouts s)
   \<and> map key_of (grids s) = map (\<lambda>d. Some (item_id d)) (gridLayouts s)
   \<and> map (attr ''data-grid'') (grids s) = map (\<lambda>d. Some (PLayout (item_layout d))) (gridLayouts s)
   \<and> map child_elements (grids s) = map (\<lambda>d. [item_render d]) (gridLayouts s)"
  by (simp add: grids_def grid_cell_def)

text \<open>
  C2. In the render number \<open>n\<close>, for every \<open>n\<close>, \<^verbatim>\<open>gridLayouts\<close> is the literal list of
  the factory: two descriptors with the ids a and b. The render leaves that list in the
  hook cell, and the next render reads the same list back.
\<close>

theorem gridLayouts_fixed:
  "gridLayouts (rendered n) = gridLayouts_factory ()
   \<and> length (gridLayouts (rendered n)) = 2
   \<and> map item_id (gridLayouts (rendered n)) = [''a'', ''b'']
   \<and> map item_layout (gridLayouts (rendered n)) =
       [ \<lparr> grid_x = 0, grid_y = 0, grid_w = 6, grid_h = 6 \<rparr>,
         \<lparr> grid_x = 6, grid_y = 0, grid_w = 6, grid_h = 6 \<rparr> ]
   \<and> memo (snd (DashboardGrid (rendered n))) = Some (gridLayouts (rendered n))
   \<and> gridLayouts (snd (DashboardGrid (rendered n))) = gridLayouts (rendered n)"
proof -
  have "gridLayouts (snd (DashboardGrid (rendered n))) = gridLayouts (rendered (Suc n))"
    by simp
  then show ?thesis
    by (simp only: gridLayouts_rendered DashboardGrid_memo) (simp add: gridLayouts_factory_def)
qed

subsection \<open>The body on run-time values\<close>









text \<open>
  The failures are results the run-time body does give, on hook cells that no render
  produces: a cell holding \<^verbatim>\<open>undefined\<close>, an array with an \<^verbatim>\<open>undefined\<close> item, a
  string.
\<close>

lemma DashboardGrid_js_can_throw:
  "DashboardGrid_js \<lparr> js_memo = Some JUndefined, js_console = [] \<rparr>
     = Inl (CannotReadProperty ''map'')
   \<and> DashboardGrid_js \<lparr> js_memo = Some (JArr [JUndefined]), js_console = [] \<rparr>
     = Inl (CannotReadProperty ''id'')
   \<and> DashboardGrid_js \<lparr> js_memo = Some (JStr ''a''), js_console = [] \<rparr>
     = Inl (NotAFunction ''map'')"
  by (simp add: DashboardGrid_js_def useMemo_def grid_cell_js_def)



text \<open>
  C8. The two layouts handed to the grid have y = 0 and h = 6; the first spans the columns
  0 to 5 and the second the columns 6 to 11, so the spans are disjoint, and no span goes
  past the 12 columns of the grid.
\<close>

theorem layouts_disjoint_in_bounds:
  "cell_layouts (fst (DashboardGrid (rendered n))) =
     [ \<lparr> grid_x = 0, grid_y = 0, grid_w = 6, grid_h = 6 \<rparr>,
       \<lparr> grid_x = 6, grid_y = 0, grid_w = 6, grid_h = 6 \<rparr> ]
   \<and> map columns (cell_layouts (fst (DashboardGrid (rendered n)))) = [{0 ..< 6}, {6 ..< 12}]
   \<and> columns (cell_layouts (fst (DashboardGrid (rendered n))) ! 0)
       \<inter> columns (cell_layouts (fst (DashboardGrid (rendered n))) ! 1) = {}
   \<and> grid_cols (fst (DashboardGrid (rendered n))) = Some 12
   \<and> list_all (\<lambda>l. case grid_cols (fst (DashboardGrid (rendered n))) of
                        Some c \<Rightarrow> 0 \<le> grid_x l \<and> grid_x l + grid_w l \<le> c
                      | None \<Rightarrow> False)
        (cell_layouts (fst (DashboardGrid (rendered n))))"
proof -
  have tree: "fst (DashboardGrid (rendered n)) = dashboard_tree (grids (rendered n))"
    by (rule DashboardGrid_tree)
  have cells: "cell_layouts (fst (DashboardGrid (rendered n))) =
     [ \<lparr> grid_x = 0, grid_y = 0, grid_w = 6, grid_h = 6 \<rparr>,
       \<lparr> grid_x = 6, grid_y = 0, grid_w = 6, grid_h = 6 \<rparr> ]"
    by (simp add: tree grids_rendered dashboard_tree_def cell_layouts_def)
  have cols: "grid_cols (fst (DashboardGrid (rendered n))) = Some 12"
    by (simp add: tree dashboard_tree_def grid_cols_def)
  show ?thesis
    by (simp add: cells cols columns_def)
qed

text \<open>
  C9. The ids of the descriptors are pairwise distinct, and so are the keys of the
  children made from them: a and b.
\<close>

theorem grid_keys_distinct:
  "distinct (map item_id (gridLayouts (rendered n)))
   \<and> map key_of (grids (rendered n)) = [Some ''a'', Some ''b'']
   \<and> distinct (map key_of (grids (rendered n)))"
  by (simp add: gridLayouts_rendered grids_rendered) (simp add: gridLayouts_factory_def)

section \<open>Properties of the fixture\<close>

lemmas fixture_defs = config_test_yaml_def llm_doc_def embedder_doc_def engine_doc_def
  document_store_doc_def pipeline_doc_def settings_doc_def

lemma sections_llm: "sections_of ''llm'' config_test_yaml = [llm_doc]"
  by (simp add: sections_of_def fixture_defs)

lemma sections_embedder: "sections_of ''embedder'' config_test_yaml = [embedder_doc]"
  by (simp add: sections_of_def fixture_defs)

lemma sections_engine: "sections_of ''engine'' config_test_yaml = [engine_doc]"
  by (simp add: sections_of_def fixture_defs)

lemma sections_document_store:
  "sections_of ''document_store'' config_test_yaml = [document_store_doc]"
  by (simp add: sections_of_def fixture_defs)

lemma sections_pipeline: "sections_of ''pipeline'' config_test_yaml = [pipeline_doc]"
  by (simp add: sections_of_def fixture_defs)

text \<open>
  C3. The fixture declares one llm (\<^verbatim>\<open>openai_llm.gpt-4o-mini\<close>), one embedder
  (\<^verbatim>\<open>openai_embedder.text-embedding-3-large\<close>), the document store \<^verbatim>\<open>qdrant\<close> and
  the engine \<^verbatim>\<open>wren_ui\<close>. Among its thirteen pipes, each of the eleven \<^verbatim>\<open>llm\<close>
  fields, the three \<^verbatim>\<open>embedder\<close> fields, the three \<^verbatim>\<open>document_store\<close> fields and
  the six \<^verbatim>\<open>engine\<close> fields names the declared resource of its kind, and a pipe has no
  field besides its name and these four.
\<close>

theorem pipes_reference_declared:
  "declared_models ''llm'' config_test_yaml = [''openai_llm.gpt-4o-mini'']
   \<and> declared_models ''embedder'' config_test_yaml = [''openai_embedder.text-embedding-3-large'']
   \<and> declared_providers ''document_store'' config_test_yaml = [''qdrant'']
   \<and> declared_providers ''engine'' config_test_yaml = [''wren_ui'']
   \<and> length (pipes config_test_yaml) = 13
   \<and> pipe_refs ''llm'' config_test_yaml = replicate 11 (YStr ''openai_llm.gpt-4o-mini'')
   \<and> pipe_refs ''embedder'' config_test_yaml
       = replicate 3 (YStr ''openai_embedder.text-embedding-3-large'')
   \<and> pipe_refs ''document_store'' config_test_yaml = replicate 3 (YStr ''qdrant'')
   \<and> pipe_refs ''engine'' config_test_yaml = replicate 6 (YStr ''wren_ui'')
   \<and> list_all (\<lambda>v. v \<in> YStr ` set (declared_models ''llm'' config_test_yaml))
        (pipe_refs ''llm'' config_test_yaml)
   \<and> list_all (\<lambda>v. v \<in> YStr ` set (declared_models ''embedder'' config_test_yaml))
        (pipe_refs ''embedder'' config_test_yaml)
   \<and> list_all (\<lambda>v. v \<in> YStr ` set (declared_providers ''document_store'' config_test_yaml))
        (pipe_refs ''document_store'' config_test_yaml)
   \<and> list_all (\<lambda>v. v \<in> YStr ` set (declared_providers ''engine'' config_test_yaml))
        (pipe_refs ''engine'' config_test_yaml)
   \<and> list_all (\<lambda>p. list_all (\<lambda>k. k \<in> set [''name'', ''llm'', ''embedder'', ''document_store'', ''engine''])
                        (keys p))
        (pipes config_test_yaml)"
proof -
  have llm: "declared_models ''llm'' config_test_yaml = [''openai_llm.gpt-4o-mini'']"
    by (simp add: declared_models_def sections_llm)
       (simp add: llm_doc_def model_ids_def strs_at_def items_at_def)
  have emb: "declared_models ''embedder'' config_test_yaml
               = [''openai_embedder.text-embedding-3-large'']"
    by (simp add: declared_models_def sections_embedder)
       (simp add: embedder_doc_def model_ids_def strs_at_def items_at_def)
  have ds: "declared_providers ''document_store'' config_test_yaml = [''qdrant'']"
    by (simp add: declared_providers_def sections_document_store)
       (simp add: document_store_doc_def strs_at_def)
  have eng: "declared_providers ''engine'' config_test_yaml = [''wren_ui'']"
    by (simp add: declared_providers_def sections_engine)
       (simp add: engine_doc_def strs_at_def)
  have ps: "pipes config_test_yaml = items_at ''pipes'' pipeline_doc"
    by (simp add: pipes_def sections_pipeline)
  have n: "length (pipes config_test_yaml) = 13"
    by (simp add: ps pipeline_doc_def items_at_def)
  have r1: "pipe_refs ''llm'' config_test_yaml = replicate 11 (YStr ''openai_llm.gpt-4o-mini'')"
    by (simp add: pipe_refs_def ps pipeline_doc_def items_at_def field_values_def eval_nat_numeral)
  have r2: "pipe_refs ''embedder'' config_test_yaml
              = replicate 3 (YStr ''openai_embedder.text-embedding-3-large'')"
    by (simp add: pipe_refs_def ps pipeline_doc_def items_at_def field_values_def eval_nat_numeral)
  have r3: "pipe_refs ''document_store'' config_test_yaml = replicate 3 (YStr ''qdrant'')"
    by (simp add: pipe_refs_def ps pipeline_doc_def items_at_def field_values_def eval_nat_numeral)
  have r4: "pipe_refs ''engine'' config_test_yaml = replicate 6 (YStr ''wren_ui'')"
    by (simp add: pipe_refs_def ps pipeline_doc_def items_at_def field_values_def eval_nat_numeral)
  have ks: "list_all (\<lambda>p. list_all (\<lambda>k. k \<in> set [''name'', ''llm'', ''embedder'', ''document_store'', ''engine''])
                              (keys p))
              (pipes config_test_yaml)"
    by (simp add: ps pipeline_doc_def items_at_def)
  have refs: "list_all (\<lambda>v. v \<in> YStr ` set [a]) (replicate k (YStr a))" for a k
    by (simp add: list_all_iff)
  show ?thesis
    by (simp only: llm emb ds eng n r1 r2 r3 r4 ks refs simp_thms)
qed

text \<open>
  C5. The fixture is a stream of six documents. The first five carry the \<^verbatim>\<open>type\<close>
  fields llm, embedder, engine, document_store and pipeline, in this order; the sixth has
  no \<^verbatim>\<open>type\<close> field and \<^verbatim>\<open>settings\<close> as its only key. So the kinds of the sections
  are these six, once each.
\<close>

theorem fixture_sections:
  "length config_test_yaml = 6
   \<and> map (field ''type'') config_test_yaml =
       [ Some (YStr ''llm''), Some (YStr ''embedder''), Some (YStr ''engine''),
         Some (YStr ''document_store''), Some (YStr ''pipeline''), None ]
   \<and> keys (config_test_yaml ! 5) = [''settings'']
   \<and> map section_kind config_test_yaml =
       [ Some ''llm'', Some ''embedder'', Some ''engine'', Some ''document_store'',
         Some ''pipeline'', Some ''settings'' ]"
  by (simp add: fixture_defs section_kind_def)

text \<open>
  C10. The dimension of the embedder's model and the \<^verbatim>\<open>embedding_model_dim\<close> of the
  document store are the same number, 3072.
\<close>

theorem embedding_dimension_consistent:
  "model_fields ''embedder'' ''dimension'' config_test_yaml = [YInt 3072]
   \<and> field_values ''embedding_model_dim'' (sections_of ''document_store'' config_test_yaml)
       = [YInt 3072]
   \<and> model_fields ''embedder'' ''dimension'' config_test_yaml
       = field_values ''embedding_model_dim'' (sections_of ''document_store'' config_test_yaml)"
  by (simp add: model_fields_def sections_embedder sections_document_store)
     (simp add: embedder_doc_def document_store_doc_def field_values_def items_at_def)

section \<open>Properties of the manifest\<close>

lemmas manifest_defs = docker_compose_yaml_def bootstrap_service_def wren_engine_service_def
  wren_ai_service_def ibis_server_service_def qdrant_service_def

text \<open>
  C6. The manifest declares five services: bootstrap, wren-engine, wren-ai-service,
  ibis-server and qdrant. Each has an \<^verbatim>\<open>image\<close> field and none has a \<^verbatim>\<open>build\<close>
  field.
\<close>

theorem manifest_services:
  "map fst (services docker_compose_yaml) =
     [''bootstrap'', ''wren-engine'', ''wren-ai-service'', ''ibis-server'', ''qdrant'']
   \<and> length (services docker_compose_yaml) = 5
   \<and> distinct (map fst (services docker_compose_yaml))
   \<and> list_all (\<lambda>kv. has_field ''image'' (snd kv) \<and> \<not> has_field ''build'' (snd kv))
        (services docker_compose_yaml)
   \<and> map (\<lambda>kv. field ''image'' (snd kv)) (services docker_compose_yaml) =
       [ Some (YStr ''ghcr.io/canner/wren-bootstrap:${WREN_BOOTSTRAP_VERSION}''),
         Some (YStr ''ghcr.io/canner/wren-engine:${WREN_ENGINE_VERSION}''),
         Some (YStr ''ghcr.io/canner/wren-ai-service:${WREN_AI_SERVICE_VERSION}''),
         Some (YStr ''ghcr.io/canner/wren-engine-ibis:${IBIS_SERVER_VERSION}''),
         Some (YStr ''qdrant/qdrant:v1.11.0'') ]"
  by (simp add: services_def manifest_defs has_field_def)

section \<open>Bindings between the three files\<close>

lemmas text_defs = tokens_def numbers_in_def parse_nat_def digit_def is_url_def url_strings_def

lemma manifest_declares_eval:
  "declares the_manifest =
     [ Service ''bootstrap'', Service ''wren-engine'', Service ''wren-ai-service'',
       Service ''ibis-server'', Service ''qdrant'',
       File ''data'', File ''/app/data'',
       File ''data'', File ''/usr/src/app/etc'',
       File ''${PROJECT_DIR}/config.yaml'', File ''/app/config.yaml'',
       File ''${PROJECT_DIR}/data'', File ''/app/data'',
       File ''${PROJECT_DIR}/.env'',
       Endpoint ''http://host.docker.internal:${WREN_UI_PORT}'',
       Port 8000, Port 8000,
       Endpoint ''http://wren-engine:${WREN_ENGINE_PORT}'',
       Port 6333, Port 6333, Port 6334, Port 6334 ]"
  by (simp add: the_manifest_def manifest_declares_def services_def manifest_defs
       service_declares_def items_at_def text_defs)

lemma fixture_declares_eval:
  "declares the_fixture =
     [ Service ''openai_llm'', Endpoint ''https://api.openai.com/v1'',
       Service ''openai_embedder'', Endpoint ''https://api.openai.com/v1'',
       Service ''wren_ui'', Endpoint ''http://localhost:3000'', Port 3000,
       Service ''qdrant'', Endpoint ''http://localhost:6333'', Port 6333,
       Endpoint ''https://docs.getwren.ai'', Endpoint ''https://cloud.langfuse.com'',
       Port 5556 ]"
  by (simp add: the_fixture_def fixture_defs document_declares_def strs_at_def text_defs)

lemma component_mentions_eval:
  "mentions the_component =
     [ Endpoint ''mt-12'', File ''mt-12'', Service ''mt-12'',
       Endpoint ''layout'', File ''layout'', Service ''layout'',
       Port 12, Port 16, Port 16, Port 30, Port 768,
       Endpoint ''a'', File ''a'', Service ''a'',
       Port 0, Port 0, Port 6, Port 6,
       Endpoint ''adm-pin-item'', File ''adm-pin-item'', Service ''adm-pin-item'',
       Endpoint ''a'', File ''a'', Service ''a'',
       Endpoint ''b'', File ''b'', Service ''b'',
       Port 6, Port 0, Port 6, Port 6,
       Endpoint ''adm-pin-item'', File ''adm-pin-item'', Service ''adm-pin-item'',
       Endpoint ''b'', File ''b'', Service ''b'' ]"
  by (simp add: the_component_def mentions_def DashboardGrid_tree [of mount]
        grids_rendered [of 0, simplified] dashboard_tree_def text_defs)

lemma shared_fixture_manifest:
  "shared the_fixture the_manifest = [Port 6333, Service ''qdrant'']"
  unfolding shared_def manifest_declares_eval
  by (simp add: the_fixture_def mentions_def fixture_defs text_defs)

lemma shared_manifest_fixture:
  "shared the_manifest the_fixture = [Service ''qdrant'', Port 6333]"
  unfolding shared_def fixture_declares_eval
  by (simp add: the_manifest_def mentions_def manifest_defs text_defs)

lemma shared_component_fixture: "shared the_component the_fixture = []"
  unfolding shared_def fixture_declares_eval component_mentions_eval
  by simp

lemma shared_component_manifest: "shared the_component the_manifest = []"
  unfolding shared_def manifest_declares_eval component_mentions_eval
  by simp

lemma shared_component_right: "shared a the_component = []"
  by (simp add: shared_def the_component_def)

text \<open>
  C4, as stated, fails: the fixture and the manifest are not independent. The port 6333
  of the fixture's document store location is a port the manifest's qdrant service
  publishes, and the fixture's provider name qdrant is the name of that service.
\<close>

theorem artifacts_independent_counterexample:
  "\<not> (independent the_fixture the_component
       \<and> independent the_component the_manifest
       \<and> independent the_fixture the_manifest)"
  by (simp add: independent_def shared_fixture_manifest)

text \<open>
  C4, amended. The component is independent of the fixture and of the manifest. The
  fixture and the manifest have exactly two bindings in common, in both directions: the
  service name qdrant and the port 6333. The file \<^verbatim>\<open>/app/config.yaml\<close> that the
  manifest mounts is declared there and named nowhere in the fixture.
\<close>

theorem artifacts_shared_bindings:
  "independent the_component the_fixture
   \<and> independent the_component the_manifest
   \<and> set (shared the_fixture the_manifest) = {Service ''qdrant'', Port 6333}
   \<and> set (shared the_manifest the_fixture) = {Service ''qdrant'', Port 6333}
   \<and> File ''/app/config.yaml'' \<in> set (declares the_manifest)
   \<and> File ''/app/config.yaml'' \<notin> set (shared the_fixture the_manifest)"
  by (simp add: independent_def shared_component_fixture shared_component_manifest
        shared_component_right shared_fixture_manifest shared_manifest_fixture
        manifest_declares_eval insert_commute)

end
